theory Spec2Isabelle
  imports Main "HOL-Library.Word"
begin

text \<open>
  A model of the chat component \<open>App\<close> of \<open>src/App.tsx\<close>: the conversation orchestrator
  (\<open>handleSubmit\<close>, \<open>formatConversationHistory\<close>) and the voice capture controller (the
  handlers of the recognition object, \<open>startSilenceDetection\<close>, \<open>stopRecording\<close>,
  \<open>toggleRecording\<close>), as functions on an explicit state, with the browser's timers,
  storage and clock made part of it or passed in.
\<close>

section \<open>Platform values: strings, truthiness, the clock\<close>

text \<open>
  A JavaScript string is a sequence of UTF-16 code units. \<open>js\<close> embeds an ASCII literal.
\<close>

type_synonym jsstring = "16 word list"

definition js :: "string \<Rightarrow> jsstring" where
  "js s = map (\<lambda>c. of_nat (of_char c)) s"

text \<open>
  \<open>String.prototype.trim\<close> strips ECMAScript WhiteSpace and LineTerminator code points
  (TAB, LF, VT, FF, CR, SP, NBSP, the Unicode space separators, LS, PS and the BOM) from
  both ends. All of them lie in the basic plane, so the test is on single code units.
\<close>

definition isWhiteSpace :: "16 word \<Rightarrow> bool" where
  "isWhiteSpace c \<longleftrightarrow>
     c \<in> {0x0009, 0x000A, 0x000B, 0x000C, 0x000D, 0x0020, 0x00A0, 0x1680,
          0x2000, 0x2001, 0x2002, 0x2003, 0x2004, 0x2005, 0x2006, 0x2007, 0x2008,
          0x2009, 0x200A, 0x2028, 0x2029, 0x202F, 0x205F, 0x3000, 0xFEFF}"

definition trim :: "jsstring \<Rightarrow> jsstring" where
  "trim s = rev (dropWhile isWhiteSpace (rev (dropWhile isWhiteSpace s)))"

text \<open>A string is truthy exactly when it is not empty.\<close>

definition truthy :: "jsstring \<Rightarrow> bool" where
  "truthy s \<longleftrightarrow> s \<noteq> []"

text \<open>
  \<open>Array.prototype.join(' ')\<close> on strings.
\<close>

fun join :: "jsstring list \<Rightarrow> jsstring" where
  "join [] = []"
| "join [x] = x"
| "join (x # y # ys) = x @ 0x0020 # join (y # ys)"

text \<open>
  \<open>Date.now()\<close> is an integer count of milliseconds; \<open>toString\<close> renders it in decimal.
\<close>

definition digit :: "int \<Rightarrow> 16 word" where
  "digit d = of_int (48 + d)"

function digits :: "int \<Rightarrow> jsstring" where
  "digits n = (if n < 10 then [digit n] else digits (n div 10) @ [digit (n mod 10)])"
  by pat_completeness auto
termination
  by (relation "measure nat") auto

declare digits.simps [simp del]

definition toString :: "int \<Rightarrow> jsstring" where
  "toString n = (if n < 0 then 0x002D # digits (- n) else digits n)"

section \<open>Data model\<close>

datatype sender = User | Ai

record message =
  id_m :: jsstring
  content_m :: jsstring
  sender_m :: sender
  timestamp_m :: int

datatype role = RoleUser | RoleAssistant

text \<open>The three fields of \<open>ConversationMessage\<close>; \<open>role\<close> and \<open>id\<close> are optional.\<close>

record conversationMessage =
  role_c :: "role option"
  content_c :: jsstring
  id_c :: "jsstring option"

text \<open>
  The body of the POST request: \<open>{ message, conversation }\<close>, sent to a fixed URL.
\<close>

record request =
  url_r :: jsstring
  method_r :: jsstring
  message_r :: jsstring
  conversation_r :: "conversationMessage list"

text \<open>
  What a request settles to. \<open>fetch\<close> either rejects (a network error) or resolves to a
  response with an \<open>ok\<close> flag and a body. The body read \<open>response.json()\<close> either fails
  (the body is not JSON, or it is \<open>null\<close>, so that reading \<open>data.id\<close> throws) or gives
  an object whose optional fields \<open>id\<close> and \<open>message\<close> are strings when present, as
  the interface of the service has it.
\<close>

record data =
  id_d :: "jsstring option"
  message_d :: "jsstring option"

datatype body = Unreadable | Parsed data

datatype settled = Rejected | Resolved bool body

section \<open>The voice session's platform objects\<close>

text \<open>
  Every function of the component is a closure over the render in which it was created:
  the constant \<open>isRecording\<close> it reads is the value of that render, not the current
  state. The handlers of a recognition object are created by
  \<open>initializeSpeechRecognition\<close>, so the object records the \<open>isRecording\<close> of the render
  whose \<open>initializeSpeechRecognition\<close> built it; the callbacks given to \<open>setInterval\<close> and
  \<open>setTimeout\<close> inherit it. Handlers of the rendered elements (\<open>onSubmit\<close>, \<open>onClick\<close>,
  \<open>onChange\<close>) belong to the latest render and read the current state.
\<close>

datatype recognition = Recognition (scope_isRecording: bool)

datatype callback = SilenceCheck bool | RetryRestart bool

datatype timer_kind = Timeout | Interval

record task =
  kind :: timer_kind
  delay :: int
  due :: int
  callback :: callback

datatype call = Start | Stop

section \<open>Component state\<close>

text \<open>
  The \<open>useState\<close> cells, the \<open>useRef\<close> cells and, below them, the part of the browser the
  component acts on: the \<open>conversation\<close> key of \<open>localStorage\<close>, the timers of the event
  loop with the next handle to hand out, the requests issued by \<open>fetch\<close>, the notices shown
  by \<open>alert\<close>, and the calls made on recognition objects.
\<close>

record app =
  messages :: "message list"
  input :: jsstring
  isLoading :: bool
  isRecording :: bool
  isSpeechSupported :: bool
  recognitionRef :: "recognition option"
  retryTimeoutRef :: "nat option"
  silenceTimeoutRef :: "nat option"
  lastSoundTimestampRef :: int
  localStorage :: "message list option"
  timers :: "(nat \<times> task) list"
  nextTimer :: nat
  fetched :: "request list"
  alerted :: "jsstring list"
  calls :: "call list"

text \<open>The state of the first render, before any effect has run.\<close>

definition initial :: "int \<Rightarrow> message list option \<Rightarrow> app" where
  "initial now stored =
     \<lparr>messages = [], input = [], isLoading = False, isRecording = False,
      isSpeechSupported = False, recognitionRef = None, retryTimeoutRef = None,
      silenceTimeoutRef = None, lastSoundTimestampRef = now, localStorage = stored,
      timers = [], nextTimer = 1, fetched = [], alerted = [], calls = []\<rparr>"

text \<open>
  \<open>setMessages\<close> with an updater. The list it produces is a new array, so the component
  renders again and the effect on \<open>[messages]\<close> writes the list to \<open>localStorage\<close>.
\<close>

definition setMessages :: "(message list \<Rightarrow> message list) \<Rightarrow> app \<Rightarrow> app" where
  "setMessages f s =
     s\<lparr>messages := f (messages s), localStorage := Some (f (messages s))\<rparr>"

section \<open>Timers of the event loop\<close>

text \<open>A handle stored in a ref is truthy when it is not \<open>null\<close> and not zero.\<close>

definition truthy_ref :: "nat option \<Rightarrow> bool" where
  "truthy_ref r = (case r of None \<Rightarrow> False | Some i \<Rightarrow> i \<noteq> 0)"

text \<open>
  \<open>setTimeout\<close> and \<open>setInterval\<close> draw their handles from one counter and return the
  handle; \<open>clearTimeout\<close> and \<open>clearInterval\<close> remove the task with that handle, if any.
\<close>

definition schedule :: "timer_kind \<Rightarrow> callback \<Rightarrow> int \<Rightarrow> int \<Rightarrow> app \<Rightarrow> nat \<times> app" where
  "schedule k cb ms now s =
     (nextTimer s,
      s\<lparr>timers := timers s @
                  [(nextTimer s, \<lparr>kind = k, delay = ms, due = now + ms, callback = cb\<rparr>)],
        nextTimer := Suc (nextTimer s)\<rparr>)"

definition clearTimer :: "nat \<Rightarrow> app \<Rightarrow> app" where
  "clearTimer i s = s\<lparr>timers := filter (\<lambda>p. fst p \<noteq> i) (timers s)\<rparr>"

text \<open>The guard \<open>if (ref.current) { ... ref.current ... }\<close>.\<close>

definition whenSet :: "nat option \<Rightarrow> (nat \<Rightarrow> app \<Rightarrow> app) \<Rightarrow> app \<Rightarrow> app" where
  "whenSet r f s = (if truthy_ref r then (case r of None \<Rightarrow> s | Some i \<Rightarrow> f i s) else s)"

section \<open>Voice capture controller\<close>

definition stopRecording :: "app \<Rightarrow> app" where
  "stopRecording s =
     (let s1 = whenSet (silenceTimeoutRef s) clearTimer s;
          s2 = whenSet (retryTimeoutRef s1)
                 (\<lambda>i t. (clearTimer i t)\<lparr>retryTimeoutRef := None\<rparr>) s1;
          s3 = (case recognitionRef s2 of
                  None \<Rightarrow> s2
                | Some r \<Rightarrow> s2\<lparr>calls := calls s2 @ [Stop]\<rparr>)
      in s3\<lparr>isRecording := False\<rparr>)"

text \<open>
  \<open>startSilenceDetection\<close> of a render whose \<open>isRecording\<close> is \<open>rec\<close>: the interval
  callback it creates reads that constant.
\<close>

definition startSilenceDetection :: "bool \<Rightarrow> int \<Rightarrow> app \<Rightarrow> app" where
  "startSilenceDetection rec now s =
     (let s1 = whenSet (silenceTimeoutRef s) clearTimer s
      in case schedule Interval (SilenceCheck rec) 500 now s1 of
           (h, s2) \<Rightarrow> s2\<lparr>silenceTimeoutRef := Some h\<rparr>)"

text \<open>
  The handlers that \<open>initializeSpeechRecognition\<close> installs, in a render whose
  \<open>isRecording\<close> is \<open>rec\<close>. \<open>now\<close> is the time at which the handler runs.
\<close>

definition onstart :: "bool \<Rightarrow> int \<Rightarrow> app \<Rightarrow> app" where
  "onstart rec now s =
     startSilenceDetection rec now (s\<lparr>isRecording := True, lastSoundTimestampRef := now\<rparr>)"

definition onresult :: "jsstring list \<Rightarrow> int \<Rightarrow> app \<Rightarrow> app" where
  "onresult transcripts now s = s\<lparr>input := join transcripts, lastSoundTimestampRef := now\<rparr>"

definition onaudiostart :: "int \<Rightarrow> app \<Rightarrow> app" where
  "onaudiostart now s = s\<lparr>lastSoundTimestampRef := now\<rparr>"

definition onaudioend :: "int \<Rightarrow> app \<Rightarrow> app" where
  "onaudioend now s =
     (let silenceDuration = now - lastSoundTimestampRef s
      in if silenceDuration \<ge> 3000 then stopRecording s else s)"

definition onerror :: "bool \<Rightarrow> jsstring \<Rightarrow> int \<Rightarrow> app \<Rightarrow> app" where
  "onerror rec error now s =
     (if error = js ''not-allowed'' then
        s\<lparr>alerted := alerted s @ [js ''Please allow microphone access to use voice input.''],
          isSpeechSupported := False\<rparr>
      else if error = js ''network'' then
        (let s1 = whenSet (retryTimeoutRef s) clearTimer s
         in case schedule Timeout (RetryRestart rec) 1000 now s1 of
              (h, s2) \<Rightarrow> s2\<lparr>retryTimeoutRef := Some h\<rparr>)
      else stopRecording s)"

definition onend :: "app \<Rightarrow> app" where
  "onend s = (if \<not> truthy_ref (retryTimeoutRef s) then stopRecording s else s)"

text \<open>
  \<open>onerror\<close> as the second source file has it (an earlier state of the component, with
  no \<open>not-allowed\<close> branch and no \<open>isSpeechSupported\<close>).
\<close>

definition onerror_part_000 :: "bool \<Rightarrow> jsstring \<Rightarrow> int \<Rightarrow> app \<Rightarrow> app" where
  "onerror_part_000 rec error now s =
     (if error = js ''network'' then
        (let s1 = whenSet (retryTimeoutRef s) clearTimer s
         in case schedule Timeout (RetryRestart rec) 1000 now s1 of
              (h, s2) \<Rightarrow> s2\<lparr>retryTimeoutRef := Some h\<rparr>)
      else stopRecording s)"

text \<open>
  The body of the restart callback, inside its guard. \<open>stop\<close> and \<open>start\<close> of the
  recognition object may throw; whether they do is the platform's choice. A throw (also
  the one from a \<open>null\<close> object) is caught and answered by \<open>stopRecording\<close>.
\<close>

definition restart :: "bool \<Rightarrow> bool \<Rightarrow> app \<Rightarrow> app" where
  "restart stop_throws start_throws s =
     (case recognitionRef s of
        None \<Rightarrow> stopRecording s
      | Some r \<Rightarrow>
          (let s1 = s\<lparr>calls := calls s @ [Stop]\<rparr>
           in if stop_throws then stopRecording s1
              else (let s2 = s1\<lparr>calls := calls s1 @ [Start]\<rparr>
                    in if start_throws then stopRecording s2 else s2)))"

fun runCallback :: "callback \<Rightarrow> bool \<Rightarrow> bool \<Rightarrow> int \<Rightarrow> app \<Rightarrow> app" where
  "runCallback (SilenceCheck rec) stop_throws start_throws now s =
     (let silenceDuration = now - lastSoundTimestampRef s
      in if silenceDuration \<ge> 3000 \<and> rec then stopRecording s else s)"
| "runCallback (RetryRestart rec) stop_throws start_throws now s =
     (if rec then restart stop_throws start_throws s else s)"

text \<open>
  The event loop runs the task with handle \<open>i\<close> at time \<open>now\<close>, when it is due. A timeout
  is removed before its callback runs, an interval is scheduled again.
\<close>

definition timerFires :: "nat \<Rightarrow> bool \<Rightarrow> bool \<Rightarrow> int \<Rightarrow> app \<Rightarrow> app" where
  "timerFires i stop_throws start_throws now s =
     (case map_of (timers s) i of
        None \<Rightarrow> s
      | Some t \<Rightarrow>
          if now < due t then s
          else runCallback (callback t) stop_throws start_throws now
                 (case kind t of
                    Timeout \<Rightarrow> clearTimer i s
                  | Interval \<Rightarrow>
                      s\<lparr>timers :=
                          map (\<lambda>p. if fst p = i then (i, (snd p)\<lparr>due := now + delay t\<rparr>)
                                   else p)
                            (timers s)\<rparr>))"

text \<open>
  \<open>initializeSpeechRecognition\<close> of a render whose \<open>isRecording\<close> is \<open>rec\<close>.
  \<open>constructs\<close> says whether \<open>new SpeechRecognition()\<close> returns an object.
\<close>

definition initializeSpeechRecognition :: "bool \<Rightarrow> bool \<Rightarrow> app \<Rightarrow> app" where
  "initializeSpeechRecognition rec constructs s =
     (if constructs then s\<lparr>recognitionRef := Some (Recognition rec)\<rparr>
      else s\<lparr>isSpeechSupported := False\<rparr>)"

text \<open>
  The effects of the first render, in their order: the capability probe, the removal of
  the stored conversation, the write of the (empty) message list.
\<close>

definition mount :: "bool \<Rightarrow> bool \<Rightarrow> app \<Rightarrow> app" where
  "mount isSupported constructs s =
     (let s1 = s\<lparr>isSpeechSupported := isSupported\<rparr>;
          s2 = (if isSupported then initializeSpeechRecognition (isRecording s) constructs s1
                else s1);
          s3 = s2\<lparr>localStorage := None\<rparr>
      in s3\<lparr>localStorage := Some (messages s)\<rparr>)"

text \<open>\<open>recognitionRef.current.start()\<close> inside \<open>try\<close>: the flag says whether it returned.\<close>

definition tryStart :: "bool \<Rightarrow> app \<Rightarrow> bool \<times> app" where
  "tryStart start_throws s =
     (case recognitionRef s of
        None \<Rightarrow> (False, s)
      | Some r \<Rightarrow> (\<not> start_throws, s\<lparr>calls := calls s @ [Start]\<rparr>))"

definition toggleRecording :: "bool \<Rightarrow> bool \<Rightarrow> bool \<Rightarrow> app \<Rightarrow> app" where
  "toggleRecording start_throws constructs retry_throws s =
     (if \<not> isSpeechSupported s then
        s\<lparr>alerted := alerted s @
           [js ''Speech recognition is not supported in your browser or microphone access was denied.'']\<rparr>
      else if isRecording s then stopRecording s
      else
        (case tryStart start_throws (s\<lparr>input := []\<rparr>) of
           (True, s1) \<Rightarrow> s1
         | (False, s1) \<Rightarrow>
             (case tryStart retry_throws
                     (initializeSpeechRecognition (isRecording s) constructs s1) of
                (True, s2) \<Rightarrow> s2
              | (False, s2) \<Rightarrow>
                  s2\<lparr>isRecording := False, isSpeechSupported := False,
                     alerted := alerted s2 @
                       [js ''Failed to start speech recognition. Please try again.'']\<rparr>)))"

section \<open>Conversation orchestrator\<close>

definition formatConversationHistory :: "message list \<Rightarrow> conversationMessage list" where
  "formatConversationHistory ms =
     map (\<lambda>msg. if sender_m msg = User
                then \<lparr>role_c = Some RoleUser, content_c = content_m msg, id_c = None\<rparr>
                else \<lparr>role_c = Some RoleAssistant, content_c = content_m msg,
                      id_c = Some (id_m msg)\<rparr>) ms"

text \<open>\<open>v || d\<close> for an optional string \<open>v\<close>: \<open>undefined\<close> and the empty string are falsy.\<close>

definition orElse :: "jsstring option \<Rightarrow> jsstring \<Rightarrow> jsstring" where
  "orElse v d = (case v of None \<Rightarrow> d | Some x \<Rightarrow> if truthy x then x else d)"

definition couldnt_process :: jsstring where
  "couldnt_process =
     js ''I apologize, but I couldn't process your dream at the moment. Please try again.''"

definition trouble_connecting :: jsstring where
  "trouble_connecting =
     js ''I apologize, but I'm having trouble connecting to the server. Please try again later.''"

text \<open>
  \<open>handleSubmit\<close> up to its first \<open>await\<close>. \<open>now\<close> is the value of \<open>Date.now()\<close> and \<open>date\<close>
  that of \<open>new Date()\<close>. The handler belongs to the latest render, so \<open>input\<close>,
  \<open>isLoading\<close>, \<open>isRecording\<close> and \<open>messages\<close> are those of the current state.
\<close>

definition handleSubmit :: "int \<Rightarrow> int \<Rightarrow> app \<Rightarrow> app" where
  "handleSubmit now date s =
     (if \<not> truthy (trim (input s)) \<or> isLoading s then s
      else
        (let s1 = (if isRecording s then stopRecording s else s);
             userMessage = \<lparr>id_m = toString now, content_m = trim (input s),
                             sender_m = User, timestamp_m = date\<rparr>;
             s2 = setMessages (\<lambda>prev. prev @ [userMessage]) s1;
             s3 = s2\<lparr>input := [], isLoading := True\<rparr>;
             conversationHistory = formatConversationHistory (messages s @ [userMessage])
         in s3\<lparr>fetched := fetched s3 @
                  [\<lparr>url_r = js ''http://localhost:5000/api/chat'', method_r = js ''POST'',
                    message_r = content_m userMessage,
                    conversation_r = conversationHistory\<rparr>]\<rparr>))"

text \<open>
  The rest of \<open>handleSubmit\<close>, run when the request has settled to \<open>r\<close>: the \<open>try\<close> block
  after the \<open>await\<close>, the \<open>catch\<close> block and the \<open>finally\<close> block.
\<close>

definition aiMessage :: "data \<Rightarrow> int \<Rightarrow> int \<Rightarrow> message" where
  "aiMessage d now date =
     \<lparr>id_m = orElse (id_d d) (toString now),
      content_m = orElse (message_d d) couldnt_process,
      sender_m = Ai, timestamp_m = date\<rparr>"

definition errorMessage :: "int \<Rightarrow> int \<Rightarrow> message" where
  "errorMessage now date =
     \<lparr>id_m = toString now, content_m = trouble_connecting, sender_m = Ai, timestamp_m = date\<rparr>"

definition reply :: "settled \<Rightarrow> int \<Rightarrow> int \<Rightarrow> message" where
  "reply r now date =
     (case r of
        Rejected \<Rightarrow> errorMessage now date
      | Resolved ok b \<Rightarrow>
          if \<not> ok then errorMessage now date
          else (case b of
                  Unreadable \<Rightarrow> errorMessage now date
                | Parsed d \<Rightarrow> aiMessage d now date))"

definition handleSubmit_settled :: "settled \<Rightarrow> int \<Rightarrow> int \<Rightarrow> app \<Rightarrow> app" where
  "handleSubmit_settled r now date s =
     (setMessages (\<lambda>prev. prev @ [reply r now date]) s)\<lparr>isLoading := False\<rparr>"

text \<open>
  \<open>resetConversation\<close>. The stored conversation is removed by the handler and written
  again, as the empty list, by the effect on \<open>[messages]\<close> after the render.
\<close>

definition resetConversation :: "app \<Rightarrow> app" where
  "resetConversation s =
     (let s1 = s\<lparr>messages := []\<rparr>;
          s2 = s1\<lparr>localStorage := None\<rparr>;
          s3 = s2\<lparr>input := []\<rparr>;
          s4 = (if isRecording s then stopRecording s3 else s3)
      in s4\<lparr>localStorage := Some []\<rparr>)"

text \<open>\<open>onChange\<close> of the text area.\<close>

definition setInput :: "jsstring \<Rightarrow> app \<Rightarrow> app" where
  "setInput v s = s\<lparr>input := v\<rparr>"

section \<open>Events\<close>

text \<open>
  What can happen to the mounted component, one event at a time (the event loop runs
  each handler to completion). The recognition events are delivered to the handlers of
  the object in \<open>recognitionRef\<close>. The booleans are the platform's choices named at the
  handlers; the integers are clock readings.
\<close>

datatype event =
    Change jsstring
  | Submit int int
  | Settle settled int int
  | Reset
  | Toggle bool bool bool
  | OnStart int
  | OnResult "jsstring list" int
  | OnAudioStart int
  | OnAudioEnd int
  | OnError jsstring int
  | OnEnd
  | TimerFires nat bool bool int

definition dispatch :: "(bool \<Rightarrow> app \<Rightarrow> app) \<Rightarrow> app \<Rightarrow> app" where
  "dispatch handler s =
     (case recognitionRef s of None \<Rightarrow> s | Some r \<Rightarrow> handler (scope_isRecording r) s)"

fun step :: "event \<Rightarrow> app \<Rightarrow> app" where
  "step (Change v) s = setInput v s"
| "step (Submit now date) s = handleSubmit now date s"
| "step (Settle r now date) s = handleSubmit_settled r now date s"
| "step Reset s = resetConversation s"
| "step (Toggle start_throws constructs retry_throws) s =
     toggleRecording start_throws constructs retry_throws s"
| "step (OnStart now) s = dispatch (\<lambda>rec. onstart rec now) s"
| "step (OnResult transcripts now) s = dispatch (\<lambda>rec. onresult transcripts now) s"
| "step (OnAudioStart now) s = dispatch (\<lambda>rec. onaudiostart now) s"
| "step (OnAudioEnd now) s = dispatch (\<lambda>rec. onaudioend now) s"
| "step (OnError error now) s = dispatch (\<lambda>rec. onerror rec error now) s"
| "step OnEnd s = dispatch (\<lambda>rec. onend) s"
| "step (TimerFires i stop_throws start_throws now) s =
     timerFires i stop_throws start_throws now s"

definition run :: "event list \<Rightarrow> app \<Rightarrow> app" where
  "run es s = fold step es s"

text \<open>The component after its first render and the effects of that render.\<close>

definition mounted :: "bool \<Rightarrow> bool \<Rightarrow> int \<Rightarrow> message list option \<Rightarrow> app" where
  "mounted isSupported constructs now stored = mount isSupported constructs (initial now stored)"

section \<open>Sequences of submissions\<close>

text \<open>
  An event is quiet when it is neither a submission, nor the completion of a request,
  nor a reset of the conversation.
\<close>

fun quiet :: "event \<Rightarrow> bool" where
  "quiet (Submit now date) = False"
| "quiet (Settle r now date) = False"
| "quiet Reset = False"
| "quiet e = True"

text \<open>
  One submission: the events before it, the submit event, the events while its request
  is in flight, and the completion of the request.
\<close>

datatype submission =
  Submission (before: "event list") (submit_now: int) (submit_date: int)
    (during: "event list") (outcome: settled) (settle_now: int) (settle_date: int)

definition submission_events :: "submission \<Rightarrow> event list" where
  "submission_events r =
     before r @ [Submit (submit_now r) (submit_date r)] @
     during r @ [Settle (outcome r) (settle_now r) (settle_date r)]"

text \<open>
  A sequence of valid submissions from \<open>s\<close>: at each submit event the trimmed input is
  not empty and nothing is in flight, and only quiet events lie in between.
\<close>

fun valid :: "app \<Rightarrow> submission list \<Rightarrow> bool" where
  "valid s [] = True"
| "valid s (r # rs) =
     (list_all quiet (before r) \<and> list_all quiet (during r) \<and>
      truthy (trim (input (run (before r) s))) \<and> \<not> isLoading (run (before r) s) \<and>
      valid (run (submission_events r) s) rs)"

definition all_events :: "submission list \<Rightarrow> event list" where
  "all_events rs = concat (map submission_events rs)"

text \<open>The user message that a valid submission builds.\<close>

definition userMessage :: "int \<Rightarrow> int \<Rightarrow> app \<Rightarrow> message" where
  "userMessage now date s =
     \<lparr>id_m = toString now, content_m = trim (input s), sender_m = User, timestamp_m = date\<rparr>"

text \<open>The part of the state that the orchestrator owns.\<close>

definition conversation :: "app \<Rightarrow> message list \<times> bool \<times> request list \<times> message list option" where
  "conversation s = (messages s, isLoading s, fetched s, localStorage s)"

text \<open>
  A request fails when \<open>fetch\<close> rejects, when the status is not a success, or when reading
  the body throws.
\<close>

definition failure :: "settled \<Rightarrow> bool" where
  "failure r = (case r of Rejected \<Rightarrow> True | Resolved ok b \<Rightarrow> \<not> ok \<or> b = Unreadable)"

section \<open>Ownership of the timers\<close>

text \<open>
  Handles are never zero, and every pending task is the one named by \<open>silenceTimeoutRef\<close>
  or by \<open>retryTimeoutRef\<close>.
\<close>

definition owned :: "app \<Rightarrow> bool" where
  "owned s \<longleftrightarrow>
     nextTimer s \<noteq> 0 \<and> silenceTimeoutRef s \<noteq> Some 0 \<and> retryTimeoutRef s \<noteq> Some 0 \<and>
     (\<forall>p\<in>set (timers s).
        silenceTimeoutRef s = Some (fst p) \<or> retryTimeoutRef s = Some (fst p))"

section \<open>What the closures of the voice session hold\<close>

text \<open>
  A callback is stale when the \<open>isRecording\<close> it closes over is false. A state is stale
  when the handlers of its recognition object and the callbacks of all its pending tasks
  are.
\<close>

definition stale_callback :: "callback \<Rightarrow> bool" where
  "stale_callback cb = (case cb of SilenceCheck rec \<Rightarrow> \<not> rec | RetryRestart rec \<Rightarrow> \<not> rec)"

definition stale :: "app \<Rightarrow> bool" where
  "stale s \<longleftrightarrow>
     (case recognitionRef s of None \<Rightarrow> True | Some r \<Rightarrow> \<not> scope_isRecording r) \<and>
     list_all (\<lambda>p. stale_callback (callback (snd p))) (timers s)"

section \<open>Evaluation and frame lemmas\<close>

lemmas eval =
  run_def mounted_def mount_def initial_def initializeSpeechRecognition_def setInput_def
  handleSubmit_def handleSubmit_settled_def setMessages_def reply_def aiMessage_def
  errorMessage_def orElse_def truthy_def trim_def isWhiteSpace_def js_def
  formatConversationHistory_def stopRecording_def whenSet_def truthy_ref_def clearTimer_def
  resetConversation_def
  schedule_def startSilenceDetection_def onstart_def onresult_def onaudiostart_def
  onaudioend_def onerror_def onend_def restart_def timerFires_def tryStart_def
  toggleRecording_def dispatch_def couldnt_process_def trouble_connecting_def Let_def

lemma trim_Nil_iff: "trim s = [] \<longleftrightarrow> (\<forall>c\<in>set s. isWhiteSpace c)"
proof -
  have "trim s = [] \<longleftrightarrow> dropWhile isWhiteSpace (rev (dropWhile isWhiteSpace s)) = []"
    by (simp add: trim_def)
  also have "\<dots> \<longleftrightarrow> (\<forall>c\<in>set (dropWhile isWhiteSpace s). isWhiteSpace c)"
    by (simp add: dropWhile_eq_Nil_conv)
  also have "\<dots> \<longleftrightarrow> dropWhile isWhiteSpace s = []"
  proof (cases "dropWhile isWhiteSpace s")
    case Nil
    show ?thesis unfolding Nil by simp
  next
    case (Cons a as)
    then have "\<not> isWhiteSpace a"
      using hd_dropWhile [of isWhiteSpace s] by auto
    with Cons show ?thesis by auto
  qed
  also have "\<dots> \<longleftrightarrow> (\<forall>c\<in>set s. isWhiteSpace c)"
    by (simp add: dropWhile_eq_Nil_conv)
  finally show ?thesis .
qed

lemma conversation_clearTimer [simp]: "conversation (clearTimer i s) = conversation s"
  by (simp add: conversation_def clearTimer_def)

lemma conversation_whenSet_clearTimer [simp]:
  "conversation (whenSet r clearTimer s) = conversation s"
  by (simp add: whenSet_def split: option.splits)

lemma conversation_stopRecording [simp]: "conversation (stopRecording s) = conversation s"
  by (simp add: conversation_def stopRecording_def whenSet_def clearTimer_def Let_def
      split: option.splits)

lemma conversation_schedule [simp]:
  "conversation (snd (schedule k cb ms now s)) = conversation s"
  by (simp add: conversation_def schedule_def)

lemma conversation_startSilenceDetection [simp]:
  "conversation (startSilenceDetection rec now s) = conversation s"
  by (simp add: conversation_def startSilenceDetection_def schedule_def whenSet_def
      clearTimer_def Let_def split: option.splits)

lemma conversation_onstart [simp]: "conversation (onstart rec now s) = conversation s"
  by (simp add: onstart_def) (simp add: conversation_def)

lemma conversation_onresult [simp]: "conversation (onresult ts now s) = conversation s"
  by (simp add: onresult_def conversation_def)

lemma conversation_onaudiostart [simp]: "conversation (onaudiostart now s) = conversation s"
  by (simp add: onaudiostart_def conversation_def)

lemma conversation_onaudioend [simp]: "conversation (onaudioend now s) = conversation s"
  by (simp add: onaudioend_def Let_def)

lemma conversation_onerror [simp]: "conversation (onerror rec e now s) = conversation s"
  by (simp add: onerror_def Let_def)
     (simp add: conversation_def schedule_def whenSet_def clearTimer_def split: option.splits)

lemma conversation_onend [simp]: "conversation (onend s) = conversation s"
  by (simp add: onend_def)

lemma conversation_dispatch:
  "(\<And>rec t. conversation (h rec t) = conversation t) \<Longrightarrow> conversation (dispatch h s) = conversation s"
  by (simp add: dispatch_def split: option.splits)

lemma conversation_restart [simp]: "conversation (restart a b s) = conversation s"
  by (simp add: restart_def Let_def split: option.splits) (simp add: conversation_def)

lemma conversation_runCallback [simp]: "conversation (runCallback cb a b now s) = conversation s"
  by (cases cb) (simp_all add: Let_def)

lemma conversation_timerFires [simp]: "conversation (timerFires i a b now s) = conversation s"
  by (simp add: timerFires_def split: option.splits timer_kind.splits)
     (simp add: conversation_def)

lemma conversation_toggleRecording [simp]:
  "conversation (toggleRecording a b c s) = conversation s"
  by (simp add: toggleRecording_def tryStart_def initializeSpeechRecognition_def
      split: option.splits prod.splits bool.splits)
     (auto simp: conversation_def)

lemma conversation_step: "quiet e \<Longrightarrow> conversation (step e s) = conversation s"
  by (cases e) (simp_all add: conversation_dispatch, simp add: setInput_def conversation_def)

lemma conversation_run: "list_all quiet es \<Longrightarrow> conversation (run es s) = conversation s"
  by (induction es arbitrary: s) (simp_all add: run_def conversation_step)

lemma run_append: "run (xs @ ys) s = run ys (run xs s)"
  by (simp add: run_def)

lemma run_Cons: "run (e # es) s = run es (step e s)"
  by (simp add: run_def)

lemma run_Nil: "run [] s = s"
  by (simp add: run_def)

lemma messages_stopRecording [simp]: "messages (stopRecording s) = messages s"
  using conversation_stopRecording [of s] by (simp add: conversation_def)

lemma fetched_stopRecording [simp]: "fetched (stopRecording s) = fetched s"
  using conversation_stopRecording [of s] by (simp add: conversation_def)

lemma handleSubmit_messages:
  assumes "truthy (trim (input s))" and "\<not> isLoading s"
  shows "messages (handleSubmit now date s) = messages s @ [userMessage now date s]"
  using assms by (simp add: handleSubmit_def setMessages_def userMessage_def Let_def)

lemma handleSubmit_isLoading:
  assumes "truthy (trim (input s))" and "\<not> isLoading s"
  shows "isLoading (handleSubmit now date s)"
  using assms by (simp add: handleSubmit_def setMessages_def Let_def)

lemma handleSubmit_fetched:
  assumes "truthy (trim (input s))" and "\<not> isLoading s"
  shows "fetched (handleSubmit now date s) =
           fetched s @
           [\<lparr>url_r = js ''http://localhost:5000/api/chat'', method_r = js ''POST'',
             message_r = trim (input s),
             conversation_r = formatConversationHistory (messages s @ [userMessage now date s])\<rparr>]"
  using assms by (simp add: handleSubmit_def setMessages_def userMessage_def Let_def)

lemma handleSubmit_settled_messages:
  "messages (handleSubmit_settled r now date s) = messages s @ [reply r now date]"
  by (simp add: handleSubmit_settled_def setMessages_def)

lemma handleSubmit_settled_isLoading: "\<not> isLoading (handleSubmit_settled r now date s)"
  by (simp add: handleSubmit_settled_def setMessages_def)

lemma handleSubmit_settled_fetched: "fetched (handleSubmit_settled r now date s) = fetched s"
  by (simp add: handleSubmit_settled_def setMessages_def)

lemma sender_reply [simp]: "sender_m (reply r now date) = Ai"
  by (simp add: reply_def errorMessage_def aiMessage_def split: settled.splits body.splits)

lemma submission_round:
  assumes q1: "list_all quiet (before r)" and q2: "list_all quiet (during r)"
    and t: "truthy (trim (input (run (before r) s)))" and l: "\<not> isLoading (run (before r) s)"
  shows "messages (run (submission_events r) s) =
           messages s @ [userMessage (submit_now r) (submit_date r) (run (before r) s),
                         reply (outcome r) (settle_now r) (settle_date r)]"
    and "\<not> isLoading (run (submission_events r) s)"
    and "length (fetched (run (submission_events r) s)) = Suc (length (fetched s))"
proof -
  define s1 where "s1 = run (before r) s"
  define s2 where "s2 = handleSubmit (submit_now r) (submit_date r) s1"
  define s3 where "s3 = run (during r) s2"
  define s4 where "s4 = handleSubmit_settled (outcome r) (settle_now r) (settle_date r) s3"
  have run: "run (submission_events r) s = s4"
    by (simp add: submission_events_def run_append run_Cons run_Nil s1_def s2_def s3_def s4_def)
  have c1: "conversation s1 = conversation s"
    unfolding s1_def by (rule conversation_run [OF q1])
  have c3: "conversation s3 = conversation s2"
    unfolding s3_def by (rule conversation_run [OF q2])
  have t1: "truthy (trim (input s1))" and l1: "\<not> isLoading s1"
    using t l by (simp_all add: s1_def)
  have m2: "messages s2 = messages s @ [userMessage (submit_now r) (submit_date r) s1]"
    using handleSubmit_messages [OF t1 l1] c1 by (simp add: s2_def conversation_def)
  have f2: "length (fetched s2) = Suc (length (fetched s))"
    using handleSubmit_fetched [OF t1 l1] c1 by (simp add: s2_def conversation_def)
  have "messages s4 = messages s3 @ [reply (outcome r) (settle_now r) (settle_date r)]"
    unfolding s4_def by (rule handleSubmit_settled_messages)
  with m2 c3 show "messages (run (submission_events r) s) =
           messages s @ [userMessage (submit_now r) (submit_date r) (run (before r) s),
                         reply (outcome r) (settle_now r) (settle_date r)]"
    by (simp add: run conversation_def s1_def)
  show "\<not> isLoading (run (submission_events r) s)"
    unfolding run s4_def by (rule handleSubmit_settled_isLoading)
  show "length (fetched (run (submission_events r) s)) = Suc (length (fetched s))"
    using f2 c3 by (simp add: run s4_def handleSubmit_settled_fetched conversation_def)
qed

section \<open>The timers stay owned\<close>

lemma whenSet_clearTimer:
  "whenSet r clearTimer s =
     s\<lparr>timers := filter (\<lambda>p. \<not> (truthy_ref r \<and> r = Some (fst p))) (timers s)\<rparr>"
  by (cases r)
     (auto simp: whenSet_def clearTimer_def truthy_ref_def
        intro: arg_cong [where f = "\<lambda>x. s\<lparr>timers := x\<rparr>"] filter_cong)

lemma stopRecording_timers:
  "timers (stopRecording s) =
     filter (\<lambda>p. \<not> (truthy_ref (retryTimeoutRef s) \<and> retryTimeoutRef s = Some (fst p)))
       (filter (\<lambda>p. \<not> (truthy_ref (silenceTimeoutRef s) \<and> silenceTimeoutRef s = Some (fst p)))
          (timers s))"
  by (cases "retryTimeoutRef s"; cases "silenceTimeoutRef s"; cases "recognitionRef s")
     (auto simp: stopRecording_def whenSet_def clearTimer_def truthy_ref_def Let_def
        intro!: filter_cong)

lemma stopRecording_retryTimeoutRef:
  "retryTimeoutRef (stopRecording s) =
     (if truthy_ref (retryTimeoutRef s) then None else retryTimeoutRef s)"
  by (cases "retryTimeoutRef s"; cases "silenceTimeoutRef s"; cases "recognitionRef s")
     (auto simp: stopRecording_def whenSet_def clearTimer_def truthy_ref_def Let_def
        intro!: filter_cong)

lemma stopRecording_silenceTimeoutRef [simp]:
  "silenceTimeoutRef (stopRecording s) = silenceTimeoutRef s"
  by (cases "retryTimeoutRef s"; cases "silenceTimeoutRef s"; cases "recognitionRef s")
     (auto simp: stopRecording_def whenSet_def clearTimer_def truthy_ref_def Let_def
        intro!: filter_cong)

lemma stopRecording_nextTimer [simp]: "nextTimer (stopRecording s) = nextTimer s"
  by (cases "retryTimeoutRef s"; cases "silenceTimeoutRef s"; cases "recognitionRef s")
     (auto simp: stopRecording_def whenSet_def clearTimer_def truthy_ref_def Let_def
        intro!: filter_cong)

lemma stopRecording_isRecording [simp]: "\<not> isRecording (stopRecording s)"
  by (simp add: stopRecording_def Let_def)

lemma owned_stopRecording_timers:
  assumes "owned s"
  shows "timers (stopRecording s) = []"
proof -
  have "truthy_ref (silenceTimeoutRef s) \<and> silenceTimeoutRef s = Some (fst p) \<or>
        truthy_ref (retryTimeoutRef s) \<and> retryTimeoutRef s = Some (fst p)"
    if "p \<in> set (timers s)" for p
    using assms that by (auto simp: owned_def truthy_ref_def)
  then show ?thesis
    by (auto simp: stopRecording_timers filter_empty_conv)
qed

lemma owned_stopRecording_retry:
  assumes "owned s"
  shows "retryTimeoutRef (stopRecording s) = None"
  using assms
  by (cases "retryTimeoutRef s") (auto simp: stopRecording_retryTimeoutRef owned_def truthy_ref_def)

lemma owned_stopRecording: "owned s \<Longrightarrow> owned (stopRecording s)"
  using owned_stopRecording_timers [of s] owned_stopRecording_retry [of s]
  by (simp add: owned_def)

lemma owned_frame [simp]:
  "owned (s\<lparr>messages := m\<rparr>) = owned s"
  "owned (s\<lparr>input := v\<rparr>) = owned s"
  "owned (s\<lparr>isLoading := l\<rparr>) = owned s"
  "owned (s\<lparr>isRecording := b\<rparr>) = owned s"
  "owned (s\<lparr>isSpeechSupported := b\<rparr>) = owned s"
  "owned (s\<lparr>recognitionRef := r\<rparr>) = owned s"
  "owned (s\<lparr>lastSoundTimestampRef := t\<rparr>) = owned s"
  "owned (s\<lparr>localStorage := st\<rparr>) = owned s"
  "owned (s\<lparr>fetched := f\<rparr>) = owned s"
  "owned (s\<lparr>alerted := a\<rparr>) = owned s"
  "owned (s\<lparr>calls := c\<rparr>) = owned s"
  by (simp_all add: owned_def)

lemma owned_rearm:
  assumes "owned s"
  shows "owned ((snd (schedule k cb ms now (whenSet (silenceTimeoutRef s) clearTimer s)))
                  \<lparr>silenceTimeoutRef := Some (nextTimer s)\<rparr>)"
    and "owned ((snd (schedule k cb ms now (whenSet (retryTimeoutRef s) clearTimer s)))
                  \<lparr>retryTimeoutRef := Some (nextTimer s)\<rparr>)"
  using assms
  by (cases "silenceTimeoutRef s"; cases "retryTimeoutRef s";
      auto simp: owned_def schedule_def whenSet_def clearTimer_def truthy_ref_def)+

lemma owned_startSilenceDetection:
  "owned s \<Longrightarrow> owned (startSilenceDetection rec now s)"
  using owned_rearm(1) [of s Interval "SilenceCheck rec" 500 now]
  by (simp add: startSilenceDetection_def Let_def schedule_def whenSet_clearTimer)

lemma owned_onstart: "owned s \<Longrightarrow> owned (onstart rec now s)"
  unfolding onstart_def by (rule owned_startSilenceDetection) simp

lemma owned_onresult: "owned s \<Longrightarrow> owned (onresult ts now s)"
  by (simp add: onresult_def)

lemma owned_onaudiostart: "owned s \<Longrightarrow> owned (onaudiostart now s)"
  by (simp add: onaudiostart_def)

lemma owned_onaudioend: "owned s \<Longrightarrow> owned (onaudioend now s)"
  by (simp add: onaudioend_def Let_def owned_stopRecording)

lemma owned_onerror: "owned s \<Longrightarrow> owned (onerror rec e now s)"
  using owned_rearm(2) [of s Timeout "RetryRestart rec" 1000 now]
  by (simp add: onerror_def Let_def owned_stopRecording schedule_def whenSet_clearTimer)

lemma owned_onend: "owned s \<Longrightarrow> owned (onend s)"
  by (simp add: onend_def owned_stopRecording)

lemma owned_dispatch:
  "(\<And>rec t. owned t \<Longrightarrow> owned (h rec t)) \<Longrightarrow> owned s \<Longrightarrow> owned (dispatch h s)"
  by (simp add: dispatch_def split: option.splits)

lemma owned_restart: "owned s \<Longrightarrow> owned (restart a b s)"
  by (simp add: restart_def Let_def owned_stopRecording split: option.splits)

lemma owned_runCallback: "owned s \<Longrightarrow> owned (runCallback cb a b now s)"
  by (cases cb) (simp_all add: Let_def owned_stopRecording owned_restart)

lemma owned_timerFires: "owned s \<Longrightarrow> owned (timerFires i a b now s)"
proof -
  assume o: "owned s"
  have 1: "owned (clearTimer i s)"
    using o by (auto simp: owned_def clearTimer_def)
  have 2: "owned (s\<lparr>timers := map (\<lambda>p. if fst p = i then (i, f p) else p) (timers s)\<rparr>)" for f
    using o by (auto simp: owned_def)
  show ?thesis
    using o 1 2
    by (simp add: timerFires_def owned_runCallback split: option.splits timer_kind.splits)
qed

lemma owned_tryStart: "owned s \<Longrightarrow> owned (snd (tryStart a s))"
  by (simp add: tryStart_def split: option.splits)

lemma owned_initializeSpeechRecognition:
  "owned s \<Longrightarrow> owned (initializeSpeechRecognition rec c s)"
  by (simp add: initializeSpeechRecognition_def)

lemma owned_toggleRecording: "owned s \<Longrightarrow> owned (toggleRecording a b c s)"
proof -
  assume o: "owned s"
  define s1 where "s1 = snd (tryStart a (s\<lparr>input := []\<rparr>))"
  define s2 where "s2 = snd (tryStart c (initializeSpeechRecognition (isRecording s) b s1))"
  have o1: "owned s1"
    unfolding s1_def using o by (intro owned_tryStart) simp
  have o2: "owned s2"
    unfolding s2_def using o1 by (intro owned_tryStart owned_initializeSpeechRecognition)
  show ?thesis
    using o o1 o2
    by (auto simp: toggleRecording_def owned_stopRecording s1_def s2_def
        split: prod.splits bool.splits)
qed

lemma owned_handleSubmit: "owned s \<Longrightarrow> owned (handleSubmit now date s)"
  by (simp add: handleSubmit_def setMessages_def Let_def owned_stopRecording)

lemma owned_handleSubmit_settled: "owned s \<Longrightarrow> owned (handleSubmit_settled r now date s)"
  by (simp add: handleSubmit_settled_def setMessages_def)

lemma owned_resetConversation: "owned s \<Longrightarrow> owned (resetConversation s)"
  by (simp add: resetConversation_def Let_def owned_stopRecording)

lemma owned_step: "owned s \<Longrightarrow> owned (step e s)"
  by (cases e)
     (simp_all add: owned_handleSubmit owned_handleSubmit_settled owned_toggleRecording
        owned_resetConversation
        owned_timerFires owned_dispatch owned_onstart owned_onresult owned_onaudiostart
        owned_onaudioend owned_onerror owned_onend setInput_def)

lemma owned_run: "owned s \<Longrightarrow> owned (run es s)"
  by (induction es arbitrary: s) (simp_all add: run_def owned_step)

lemma owned_mounted: "owned (mounted p c now stored)"
  by (simp add: mounted_def mount_def initial_def initializeSpeechRecognition_def owned_def Let_def)

section \<open>The closures of the voice session are stale\<close>

text \<open>
  \<open>initializeSpeechRecognition\<close> runs in the effect of the first render and in the
  \<open>else\<close> branch of \<open>toggleRecording\<close>; in both, \<open>isRecording\<close> is false. So every state
  the mounted component reaches is stale, and a timer that fires changes neither
  \<open>isRecording\<close> nor the calls made on the recognition object.
\<close>

lemma stale_frame [simp]:
  "stale (s\<lparr>messages := m\<rparr>) = stale s"
  "stale (s\<lparr>input := v\<rparr>) = stale s"
  "stale (s\<lparr>isLoading := l\<rparr>) = stale s"
  "stale (s\<lparr>isRecording := b\<rparr>) = stale s"
  "stale (s\<lparr>isSpeechSupported := b\<rparr>) = stale s"
  "stale (s\<lparr>retryTimeoutRef := h\<rparr>) = stale s"
  "stale (s\<lparr>silenceTimeoutRef := h\<rparr>) = stale s"
  "stale (s\<lparr>lastSoundTimestampRef := t\<rparr>) = stale s"
  "stale (s\<lparr>localStorage := st\<rparr>) = stale s"
  "stale (s\<lparr>nextTimer := n\<rparr>) = stale s"
  "stale (s\<lparr>fetched := f\<rparr>) = stale s"
  "stale (s\<lparr>alerted := a\<rparr>) = stale s"
  "stale (s\<lparr>calls := c\<rparr>) = stale s"
  by (simp_all add: stale_def)

lemma stale_filter: "stale s \<Longrightarrow> stale (s\<lparr>timers := filter P (timers s)\<rparr>)"
  by (simp add: stale_def list_all_iff)

lemma stale_whenSet: "stale s \<Longrightarrow> stale (whenSet r clearTimer s)"
  by (simp add: whenSet_clearTimer stale_filter)

lemma stale_stopRecording: "stale s \<Longrightarrow> stale (stopRecording s)"
proof -
  assume st: "stale s"
  have "stale (whenSet r (\<lambda>i t. (clearTimer i t)\<lparr>retryTimeoutRef := None\<rparr>) t)" if "stale t" for r t
    using that by (cases r) (simp_all add: whenSet_def clearTimer_def stale_filter)
  with st show ?thesis
    by (simp add: stopRecording_def Let_def stale_whenSet split: option.splits)
qed

lemma stale_schedule:
  "stale s \<Longrightarrow> stale_callback cb \<Longrightarrow> stale (snd (schedule k cb ms now s))"
  by (simp add: schedule_def stale_def)

lemma stale_startSilenceDetection: "stale s \<Longrightarrow> stale (startSilenceDetection False now s)"
proof -
  assume "stale s"
  then have "stale (snd (schedule Interval (SilenceCheck False) 500 now
                           (whenSet (silenceTimeoutRef s) clearTimer s)))"
    by (intro stale_schedule stale_whenSet) (simp_all add: stale_callback_def)
  then show ?thesis
    by (auto simp: startSilenceDetection_def Let_def split: prod.splits)
qed

lemma stale_onerror: "stale s \<Longrightarrow> stale (onerror False e now s)"
proof -
  assume st: "stale s"
  then have "stale (snd (schedule Timeout (RetryRestart False) 1000 now
                           (whenSet (retryTimeoutRef s) clearTimer s)))"
    by (intro stale_schedule stale_whenSet) (simp_all add: stale_callback_def)
  with st show ?thesis
    by (auto simp: onerror_def Let_def stale_stopRecording split: prod.splits)
qed

lemma stale_dispatch:
  "(\<And>t. stale t \<Longrightarrow> stale (h False t)) \<Longrightarrow> stale s \<Longrightarrow> stale (dispatch h s)"
  by (cases "recognitionRef s") (auto simp: dispatch_def stale_def)

lemma stale_restart: "stale s \<Longrightarrow> stale (restart a b s)"
  by (simp add: restart_def Let_def stale_stopRecording split: option.splits)

lemma stale_runCallback: "stale s \<Longrightarrow> stale (runCallback cb a b now s)"
  by (cases cb) (simp_all add: Let_def stale_stopRecording stale_restart)

lemma stale_timerFires: "stale s \<Longrightarrow> stale (timerFires i a b now s)"
proof -
  assume st: "stale s"
  have 1: "stale (clearTimer i s)"
    using st by (simp add: clearTimer_def stale_filter)
  have 2: "stale (s\<lparr>timers := map (\<lambda>p. if fst p = i then (i, (snd p)\<lparr>due := d\<rparr>) else p) (timers s)\<rparr>)" for d
    using st by (auto simp: stale_def list_all_iff)
  show ?thesis
    using st 1 2
    by (simp add: timerFires_def stale_runCallback split: option.splits timer_kind.splits)
qed

lemma stale_tryStart: "stale s \<Longrightarrow> stale (snd (tryStart a s))"
  by (simp add: tryStart_def split: option.splits)

lemma stale_toggleRecording: "stale s \<Longrightarrow> stale (toggleRecording a b c s)"
proof (cases "isRecording s")
  case True
  assume "stale s"
  then show ?thesis
    using True by (simp add: toggleRecording_def stale_stopRecording)
next
  case False
  assume st: "stale s"
  define s1 where "s1 = snd (tryStart a (s\<lparr>input := []\<rparr>))"
  define s2 where "s2 = snd (tryStart c (initializeSpeechRecognition False b s1))"
  have st1: "stale s1"
    unfolding s1_def using st by (intro stale_tryStart) simp
  have "stale (initializeSpeechRecognition False b s1)"
    using st1 by (simp add: initializeSpeechRecognition_def stale_def)
  then have st2: "stale s2"
    unfolding s2_def by (rule stale_tryStart)
  show ?thesis
    using st st1 st2 False
    by (auto simp: toggleRecording_def s1_def s2_def split: prod.splits bool.splits)
qed

lemma stale_handleSubmit: "stale s \<Longrightarrow> stale (handleSubmit now date s)"
  by (simp add: handleSubmit_def setMessages_def Let_def stale_stopRecording)

lemma stale_resetConversation: "stale s \<Longrightarrow> stale (resetConversation s)"
  by (simp add: resetConversation_def Let_def stale_stopRecording)

lemma stale_step: "stale s \<Longrightarrow> stale (step e s)"
  by (cases e)
     (simp_all add: stale_handleSubmit stale_toggleRecording stale_timerFires stale_dispatch
        stale_resetConversation
        stale_onerror stale_startSilenceDetection stale_stopRecording
        onstart_def onresult_def onaudiostart_def onaudioend_def onend_def Let_def
        handleSubmit_settled_def setMessages_def setInput_def)

lemma stale_run: "stale s \<Longrightarrow> stale (run es s)"
  by (induction es arbitrary: s) (simp_all add: run_def stale_step)

lemma stale_mounted: "stale (mounted p c now stored)"
  by (simp add: mounted_def mount_def initial_def initializeSpeechRecognition_def stale_def Let_def)

lemma stale_callbacks_idle:
  assumes "stale s"
  shows "isRecording (timerFires i a b now s) = isRecording s"
    and "calls (timerFires i a b now s) = calls s"
proof -
  have cb: "stale_callback (callback t)" if "map_of (timers s) i = Some t" for t
    using assms map_of_SomeD [OF that] by (auto simp: stale_def list_all_iff)
  have idle: "runCallback cb a b now t = t" if "stale_callback cb" for cb t
    using that by (cases cb) (simp_all add: stale_callback_def)
  show "isRecording (timerFires i a b now s) = isRecording s"
    by (auto simp: timerFires_def idle cb clearTimer_def split: option.splits timer_kind.splits)
  show "calls (timerFires i a b now s) = calls s"
    by (auto simp: timerFires_def idle cb clearTimer_def split: option.splits timer_kind.splits)
qed

lemma timers_never_act:
  "isRecording (step (TimerFires i a b t) (run es (mounted p c now stored))) =
     isRecording (run es (mounted p c now stored)) \<and>
   calls (step (TimerFires i a b t) (run es (mounted p c now stored))) =
     calls (run es (mounted p c now stored))"
  using stale_callbacks_idle [OF stale_run [OF stale_mounted]] by simp

lemma onaudioend_stops:
  "now - lastSoundTimestampRef s \<ge> 3000 \<Longrightarrow> \<not> isRecording (onaudioend now s)"
  by (simp add: onaudioend_def Let_def)

lemma other_errors_stop:
  "error \<noteq> js ''not-allowed'' \<Longrightarrow> error \<noteq> js ''network'' \<Longrightarrow>
   onerror rec error now s = stopRecording s"
  by (simp add: onerror_def)

section \<open>Conversation orchestrator: properties\<close>

text \<open>
  C1. From any state, a sequence of \<open>N\<close> valid submissions, each followed by the completion
  of its request with whatever outcome and with quiet events in between, appends exactly
  \<open>2N\<close> messages to the list, leaves the earlier messages in place, makes the appended
  senders alternate user, assistant, and issues exactly \<open>N\<close> requests.
\<close>

theorem submissions_alternate:
  assumes "valid s rs"
  shows "length (messages (run (all_events rs) s)) = length (messages s) + 2 * length rs \<and>
         take (length (messages s)) (messages (run (all_events rs) s)) = messages s \<and>
         map sender_m (drop (length (messages s)) (messages (run (all_events rs) s))) =
           concat (replicate (length rs) [User, Ai]) \<and>
         length (fetched (run (all_events rs) s)) = length (fetched s) + length rs"
  using assms
proof (induction rs arbitrary: s)
  case Nil
  show ?case by (simp add: all_events_def run_Nil)
next
  case (Cons r rs)
  define s' where "s' = run (submission_events r) s"
  from Cons.prems have q1: "list_all quiet (before r)" and q2: "list_all quiet (during r)"
    and t: "truthy (trim (input (run (before r) s)))" and l: "\<not> isLoading (run (before r) s)"
    and v: "valid s' rs"
    by (simp_all add: s'_def)
  obtain u a where m: "messages s' = messages s @ [u, a]"
    and su: "sender_m u = User" and sa: "sender_m a = Ai"
    using submission_round(1) [OF q1 q2 t l] by (simp add: s'_def userMessage_def)
  have f: "length (fetched s') = Suc (length (fetched s))"
    using submission_round(3) [OF q1 q2 t l] by (simp add: s'_def)
  have run: "run (all_events (r # rs)) s = run (all_events rs) s'"
    by (simp add: all_events_def run_append s'_def)
  from Cons.IH [OF v] have
    len: "length (messages (run (all_events rs) s')) = length (messages s') + 2 * length rs"
    and tk: "take (length (messages s')) (messages (run (all_events rs) s')) = messages s'"
    and sd: "map sender_m (drop (length (messages s')) (messages (run (all_events rs) s'))) =
               concat (replicate (length rs) [User, Ai])"
    and fl: "length (fetched (run (all_events rs) s')) = length (fetched s') + length rs"
    by simp_all
  define ms where "ms = messages (run (all_events rs) s')"
  define rest where "rest = drop (length (messages s')) ms"
  have ms: "ms = messages s @ [u, a] @ rest"
    using tk append_take_drop_id [of "length (messages s')" ms]
    by (simp add: ms_def rest_def m)
  have "map sender_m rest = concat (replicate (length rs) [User, Ai])"
    using sd by (simp add: rest_def ms_def)
  then show ?case
    using len fl f m su sa unfolding run ms_def [symmetric] by (simp add: ms)
qed

theorem submissions_alternate_witness:
  "valid (mounted True True 0 None)
     [Submission [Change (js ''I was flying'')] 10 11 []
        (Resolved True (Parsed \<lparr>id_d = Some (js ''a1''), message_d = Some (js ''ok'')\<rparr>)) 20 21,
      Submission [Toggle False True False, OnStart 30, OnResult [js ''and'', js ''fell''] 40]
        50 51 [OnEnd] Rejected 60 61] \<and>
   map sender_m (messages (run (all_events
     [Submission [Change (js ''I was flying'')] 10 11 []
        (Resolved True (Parsed \<lparr>id_d = Some (js ''a1''), message_d = Some (js ''ok'')\<rparr>)) 20 21,
      Submission [Toggle False True False, OnStart 30, OnResult [js ''and'', js ''fell''] 40]
        50 51 [OnEnd] Rejected 60 61]) (mounted True True 0 None))) = [User, Ai, User, Ai] \<and>
   length (fetched (run (all_events
     [Submission [Change (js ''I was flying'')] 10 11 []
        (Resolved True (Parsed \<lparr>id_d = Some (js ''a1''), message_d = Some (js ''ok'')\<rparr>)) 20 21,
      Submission [Toggle False True False, OnStart 30, OnResult [js ''and'', js ''fell''] 40]
        50 51 [OnEnd] Rejected 60 61]) (mounted True True 0 None))) = 2"
proof -
  let ?s = "mounted True True 0 None"
  let ?rs = "[Submission [Change (js ''I was flying'')] 10 11 []
        (Resolved True (Parsed \<lparr>id_d = Some (js ''a1''), message_d = Some (js ''ok'')\<rparr>)) 20 21,
      Submission [Toggle False True False, OnStart 30, OnResult [js ''and'', js ''fell''] 40]
        50 51 [OnEnd] Rejected 60 61]"
  have v: "valid ?s ?rs"
    by (simp add: eval submission_events_def)
  have m: "messages ?s = []" and f: "fetched ?s = []"
    by (simp_all add: eval)
  show ?thesis
    using v submissions_alternate [OF v] by (simp add: m f)
qed

text \<open>
  C2. \<open>handleSubmit\<close> does nothing when the input is empty or consists of white space only,
  or when a request is in flight: the state is returned as it is, so the message list,
  the issued requests, the in-flight flag and the stored conversation are unchanged.
\<close>

theorem submit_noop:
  assumes "(\<forall>c\<in>set (input s). isWhiteSpace c) \<or> isLoading s"
  shows "handleSubmit now date s = s \<and>
         messages (handleSubmit now date s) = messages s \<and>
         fetched (handleSubmit now date s) = fetched s \<and>
         isLoading (handleSubmit now date s) = isLoading s \<and>
         localStorage (handleSubmit now date s) = localStorage s"
proof -
  have "handleSubmit now date s = s"
    using assms by (auto simp: handleSubmit_def truthy_def trim_Nil_iff)
  then show ?thesis by simp
qed

theorem submit_noop_witness:
  "((\<forall>c\<in>set (input (run [Change [0x0020, 0x0009, 0x000A]] (mounted True True 0 None))).
       isWhiteSpace c) \<or>
    isLoading (run [Change [0x0020, 0x0009, 0x000A]] (mounted True True 0 None))) \<and>
   handleSubmit 5 5 (run [Change [0x0020, 0x0009, 0x000A]] (mounted True True 0 None)) =
     run [Change [0x0020, 0x0009, 0x000A]] (mounted True True 0 None) \<and>
   isLoading (run [Change (js ''I was flying''), Submit 1 1, Change (js ''again'')]
                (mounted True True 0 None)) \<and>
   handleSubmit 5 5 (run [Change (js ''I was flying''), Submit 1 1, Change (js ''again'')]
                (mounted True True 0 None)) =
     run [Change (js ''I was flying''), Submit 1 1, Change (js ''again'')]
                (mounted True True 0 None)"
proof -
  let ?s = "run [Change [0x0020, 0x0009, 0x000A]] (mounted True True 0 None)"
  let ?t = "run [Change (js ''I was flying''), Submit 1 1, Change (js ''again'')]
                (mounted True True 0 None)"
  have h: "(\<forall>c\<in>set (input ?s). isWhiteSpace c) \<or> isLoading ?s"
    by (simp add: eval)
  have l: "isLoading ?t"
    by (simp add: eval)
  then have k: "(\<forall>c\<in>set (input ?t). isWhiteSpace c) \<or> isLoading ?t" ..
  show ?thesis
    using h l submit_noop [OF h, of 5 5] submit_noop [OF k, of 5 5] by simp
qed

text \<open>
  C3. When the request fails, the completion appends exactly one assistant message, with
  the fixed apology as content and the decimal rendering of the clock read at completion
  as id; whatever the outcome, the in-flight flag is false afterwards.
\<close>

theorem failure_appends_apology:
  "(failure r \<longrightarrow>
      messages (handleSubmit_settled r now date s) =
        messages s @
        [\<lparr>id_m = toString now,
          content_m = js ''I apologize, but I'm having trouble connecting to the server. Please try again later.'',
          sender_m = Ai, timestamp_m = date\<rparr>]) \<and>
   \<not> isLoading (handleSubmit_settled r now date s)"
  by (simp add: failure_def handleSubmit_settled_def setMessages_def reply_def errorMessage_def
      trouble_connecting_def split: settled.splits body.splits)

theorem failure_appends_apology_witness:
  "failure Rejected \<and> failure (Resolved False Unreadable) \<and>
   messages (handleSubmit_settled Rejected 1700000000123 21
               (run [Change (js ''I was flying''), Submit 10 11] (mounted True True 0 None))) =
     [\<lparr>id_m = js ''10'', content_m = js ''I was flying'', sender_m = User, timestamp_m = 11\<rparr>,
      \<lparr>id_m = js ''1700000000123'',
       content_m = js ''I apologize, but I'm having trouble connecting to the server. Please try again later.'',
       sender_m = Ai, timestamp_m = 21\<rparr>] \<and>
   isLoading (run [Change (js ''I was flying''), Submit 10 11] (mounted True True 0 None)) \<and>
   \<not> isLoading (handleSubmit_settled Rejected 1700000000123 21
               (run [Change (js ''I was flying''), Submit 10 11] (mounted True True 0 None)))"
proof -
  let ?s = "run [Change (js ''I was flying''), Submit 10 11] (mounted True True 0 None)"
  have f: "failure Rejected" "failure (Resolved False Unreadable)"
    by (simp_all add: failure_def)
  have m: "messages ?s =
      [\<lparr>id_m = js ''10'', content_m = js ''I was flying'', sender_m = User, timestamp_m = 11\<rparr>]"
    by (simp add: eval toString_def digits.simps digit_def)
  have l: "isLoading ?s"
    by (simp add: eval)
  have t: "toString 1700000000123 = js ''1700000000123''"
    by (simp add: toString_def digits.simps digit_def js_def)
  show ?thesis
    using f l failure_appends_apology [of Rejected 1700000000123 21 ?s]
    by (simp add: m t)
qed

text \<open>
  C7. \<open>formatConversationHistory\<close> keeps the length and the order of the message list; a
  user message becomes \<open>{role: 'user', content}\<close> with no id, any other message becomes
  \<open>{role: 'assistant', content, id}\<close>. The request that a valid submission issues carries
  the trimmed input as \<open>message\<close> and, as \<open>conversation\<close>, the projection of the message
  list as it is after the user message has been appended.
\<close>

theorem wire_projection:
  "length (formatConversationHistory ms) = length ms \<and>
   (\<forall>i<length ms.
      formatConversationHistory ms ! i =
        (if sender_m (ms ! i) = User
         then \<lparr>role_c = Some RoleUser, content_c = content_m (ms ! i), id_c = None\<rparr>
         else \<lparr>role_c = Some RoleAssistant, content_c = content_m (ms ! i),
               id_c = Some (id_m (ms ! i))\<rparr>)) \<and>
   (truthy (trim (input s)) \<and> \<not> isLoading s \<longrightarrow>
      messages (handleSubmit now date s) =
        messages s @
        [\<lparr>id_m = toString now, content_m = trim (input s), sender_m = User,
          timestamp_m = date\<rparr>] \<and>
      fetched (handleSubmit now date s) =
        fetched s @
        [\<lparr>url_r = js ''http://localhost:5000/api/chat'', method_r = js ''POST'',
          message_r = trim (input s),
          conversation_r = formatConversationHistory (messages (handleSubmit now date s))\<rparr>])"
proof -
  have "truthy (trim (input s)) \<and> \<not> isLoading s \<longrightarrow>
      messages (handleSubmit now date s) = messages s @ [userMessage now date s] \<and>
      fetched (handleSubmit now date s) =
        fetched s @
        [\<lparr>url_r = js ''http://localhost:5000/api/chat'', method_r = js ''POST'',
          message_r = trim (input s),
          conversation_r = formatConversationHistory (messages s @ [userMessage now date s])\<rparr>]"
    by (simp add: handleSubmit_messages handleSubmit_fetched)
  then show ?thesis
    by (simp add: formatConversationHistory_def userMessage_def)
qed

theorem wire_projection_witness:
  "truthy (trim (input (run [Change (js ''I was flying''), Submit 10 11,
                             Settle (Resolved True (Parsed \<lparr>id_d = Some (js ''a1''), message_d = Some (js ''Freedom.'')\<rparr>)) 20 21,
                             Change (js '' and fell '')] (mounted True True 0 None)))) \<and>
   \<not> isLoading (run [Change (js ''I was flying''), Submit 10 11,
                             Settle (Resolved True (Parsed \<lparr>id_d = Some (js ''a1''), message_d = Some (js ''Freedom.'')\<rparr>)) 20 21,
                             Change (js '' and fell '')] (mounted True True 0 None)) \<and>
   fetched (handleSubmit 30 31 (run [Change (js ''I was flying''), Submit 10 11,
                             Settle (Resolved True (Parsed \<lparr>id_d = Some (js ''a1''), message_d = Some (js ''Freedom.'')\<rparr>)) 20 21,
                             Change (js '' and fell '')] (mounted True True 0 None))) ! 1 =
     \<lparr>url_r = js ''http://localhost:5000/api/chat'', method_r = js ''POST'',
      message_r = js ''and fell'',
      conversation_r =
        [\<lparr>role_c = Some RoleUser, content_c = js ''I was flying'', id_c = None\<rparr>,
         \<lparr>role_c = Some RoleAssistant, content_c = js ''Freedom.'', id_c = Some (js ''a1'')\<rparr>,
         \<lparr>role_c = Some RoleUser, content_c = js ''and fell'', id_c = None\<rparr>]\<rparr>"
proof -
  let ?s = "run [Change (js ''I was flying''), Submit 10 11,
                 Settle (Resolved True (Parsed \<lparr>id_d = Some (js ''a1''), message_d = Some (js ''Freedom.'')\<rparr>)) 20 21,
                 Change (js '' and fell '')] (mounted True True 0 None)"
  have h: "truthy (trim (input ?s)) \<and> \<not> isLoading ?s"
    by (simp add: eval)
  have t: "trim (input ?s) = js ''and fell''"
    by (simp add: eval)
  have m: "messages ?s =
      [\<lparr>id_m = toString 10, content_m = js ''I was flying'', sender_m = User, timestamp_m = 11\<rparr>,
       \<lparr>id_m = js ''a1'', content_m = js ''Freedom.'', sender_m = Ai, timestamp_m = 21\<rparr>]"
    by (simp add: eval)
  have f: "length (fetched ?s) = 1"
    by (simp add: eval)
  from wire_projection [of "messages (handleSubmit 30 31 ?s)" ?s 30 31] h
  have "fetched (handleSubmit 30 31 ?s) ! 1 =
        \<lparr>url_r = js ''http://localhost:5000/api/chat'', method_r = js ''POST'',
          message_r = trim (input ?s),
          conversation_r = formatConversationHistory (messages (handleSubmit 30 31 ?s))\<rparr>"
    and "messages (handleSubmit 30 31 ?s) =
        messages ?s @
        [\<lparr>id_m = toString 30, content_m = trim (input ?s), sender_m = User, timestamp_m = 31\<rparr>]"
    using f by (simp_all add: nth_append)
  then show ?thesis
    using h by (simp add: t m formatConversationHistory_def)
qed

text \<open>
  C8. With nothing in flight, typing \<open>I was flying\<close>, submitting, and receiving a successful
  response with body \<open>{id: "a1", message: "Flying often symbolizes freedom."}\<close> appends
  to the message list the user message with that content and then the assistant message
  with id \<open>a1\<close> and the text of the response.
\<close>

theorem flying_scenario:
  assumes "\<not> isLoading s"
  shows "messages (run [Change (js ''I was flying''), Submit now date,
                        Settle (Resolved True
                                  (Parsed \<lparr>id_d = Some (js ''a1''),
                                           message_d = Some (js ''Flying often symbolizes freedom.'')\<rparr>))
                          now' date'] s) =
           messages s @
           [\<lparr>id_m = toString now, content_m = js ''I was flying'', sender_m = User,
             timestamp_m = date\<rparr>,
            \<lparr>id_m = js ''a1'', content_m = js ''Flying often symbolizes freedom.'',
             sender_m = Ai, timestamp_m = date'\<rparr>]"
proof -
  let ?s1 = "setInput (js ''I was flying'') s"
  have t: "trim (input ?s1) = js ''I was flying''"
    by (simp add: setInput_def trim_def js_def isWhiteSpace_def)
  then have tr: "truthy (trim (input ?s1))"
    by (simp add: truthy_def js_def)
  have l: "\<not> isLoading ?s1"
    using assms by (simp add: setInput_def)
  have "messages (handleSubmit now date ?s1) =
          messages s @ [\<lparr>id_m = toString now, content_m = js ''I was flying'', sender_m = User,
             timestamp_m = date\<rparr>]"
    using handleSubmit_messages [OF tr l, of now date]
    by (simp add: userMessage_def t) (simp add: setInput_def)
  then show ?thesis
    by (simp add: run_def handleSubmit_settled_messages reply_def aiMessage_def orElse_def
        truthy_def js_def)
qed

theorem flying_scenario_witness:
  "\<not> isLoading (mounted True True 0 None) \<and>
   messages (run [Change (js ''I was flying''), Submit 1700000000123 1700000000123,
                  Settle (Resolved True
                            (Parsed \<lparr>id_d = Some (js ''a1''),
                                     message_d = Some (js ''Flying often symbolizes freedom.'')\<rparr>))
                    1700000000900 1700000000900] (mounted True True 0 None)) =
     [\<lparr>id_m = js ''1700000000123'', content_m = js ''I was flying'', sender_m = User,
       timestamp_m = 1700000000123\<rparr>,
      \<lparr>id_m = js ''a1'', content_m = js ''Flying often symbolizes freedom.'',
       sender_m = Ai, timestamp_m = 1700000000900\<rparr>]"
proof -
  have l: "\<not> isLoading (mounted True True 0 None)"
    by (simp add: eval)
  have m: "messages (mounted True True 0 None) = []"
    by (simp add: eval)
  have t: "toString 1700000000123 = js ''1700000000123''"
    by (simp add: toString_def digits.simps digit_def js_def)
  show ?thesis
    using l flying_scenario [OF l, of 1700000000123 1700000000123 1700000000900 1700000000900]
    by (simp add: m t)
qed

text \<open>
  C10. In a successful response the optional fields are tested for truthiness, not for
  presence. The assistant message takes the fallback text when \<open>message\<close> is absent and
  also when it is present but empty, and takes \<open>message\<close> itself exactly when it is a
  non-empty string. Likewise its id is the decimal rendering of the clock when \<open>id\<close> is
  absent or empty, and \<open>id\<close> itself when that is a non-empty string.
\<close>

theorem truthiness_decides_fallback:
  "(message_d d = None \<longrightarrow>
      content_m (last (messages (handleSubmit_settled (Resolved True (Parsed d)) now date s))) =
        js ''I apologize, but I couldn't process your dream at the moment. Please try again.'') \<and>
   (message_d d = Some [] \<longrightarrow>
      content_m (last (messages (handleSubmit_settled (Resolved True (Parsed d)) now date s))) =
        js ''I apologize, but I couldn't process your dream at the moment. Please try again.'') \<and>
   (\<forall>m. message_d d = Some m \<and> m \<noteq> [] \<longrightarrow>
      content_m (last (messages (handleSubmit_settled (Resolved True (Parsed d)) now date s))) = m) \<and>
   (id_d d = None \<longrightarrow>
      id_m (last (messages (handleSubmit_settled (Resolved True (Parsed d)) now date s))) =
        toString now) \<and>
   (id_d d = Some [] \<longrightarrow>
      id_m (last (messages (handleSubmit_settled (Resolved True (Parsed d)) now date s))) =
        toString now) \<and>
   (\<forall>i. id_d d = Some i \<and> i \<noteq> [] \<longrightarrow>
      id_m (last (messages (handleSubmit_settled (Resolved True (Parsed d)) now date s))) = i) \<and>
   sender_m (last (messages (handleSubmit_settled (Resolved True (Parsed d)) now date s))) = Ai \<and>
   timestamp_m (last (messages (handleSubmit_settled (Resolved True (Parsed d)) now date s))) = date"
  by (simp add: handleSubmit_settled_messages reply_def aiMessage_def orElse_def truthy_def
      couldnt_process_def)

theorem truthiness_decides_fallback_witness:
  "messages (handleSubmit_settled
               (Resolved True (Parsed \<lparr>id_d = Some [], message_d = Some []\<rparr>)) 1700000000900 21
               (run [Change (js ''I was flying''), Submit 10 11] (mounted True True 0 None))) ! 1 =
     \<lparr>id_m = js ''1700000000900'',
      content_m = js ''I apologize, but I couldn't process your dream at the moment. Please try again.'',
      sender_m = Ai, timestamp_m = 21\<rparr> \<and>
   messages (handleSubmit_settled
               (Resolved True (Parsed \<lparr>id_d = Some (js ''a1''), message_d = None\<rparr>)) 1700000000900 21
               (run [Change (js ''I was flying''), Submit 10 11] (mounted True True 0 None))) ! 1 =
     \<lparr>id_m = js ''a1'',
      content_m = js ''I apologize, but I couldn't process your dream at the moment. Please try again.'',
      sender_m = Ai, timestamp_m = 21\<rparr> \<and>
   messages (handleSubmit_settled
               (Resolved True (Parsed \<lparr>id_d = None, message_d = Some (js ''Freedom.'')\<rparr>))
               1700000000900 21
               (run [Change (js ''I was flying''), Submit 10 11] (mounted True True 0 None))) ! 1 =
     \<lparr>id_m = js ''1700000000900'', content_m = js ''Freedom.'', sender_m = Ai, timestamp_m = 21\<rparr>"
proof -
  let ?s = "run [Change (js ''I was flying''), Submit 10 11] (mounted True True 0 None)"
  let ?fb = "js ''I apologize, but I couldn't process your dream at the moment. Please try again.''"
  have t: "toString 1700000000900 = js ''1700000000900''"
    by (simp add: toString_def digits.simps digit_def js_def)
  have n: "length (messages ?s) = 1"
    by (simp add: eval)
  have la: "last (messages (handleSubmit_settled (Resolved True (Parsed d)) 1700000000900 21 ?s)) =
            messages (handleSubmit_settled (Resolved True (Parsed d)) 1700000000900 21 ?s) ! 1" for d
    using n by (simp add: handleSubmit_settled_messages nth_append)
  have ne: "js ''a1'' \<noteq> []" "js ''Freedom.'' \<noteq> []"
    by (simp_all add: js_def)
  have 1: "messages (handleSubmit_settled
               (Resolved True (Parsed \<lparr>id_d = Some [], message_d = Some []\<rparr>)) 1700000000900 21 ?s) ! 1 =
     \<lparr>id_m = js ''1700000000900'', content_m = ?fb, sender_m = Ai, timestamp_m = 21\<rparr>"
    using truthiness_decides_fallback
            [of "\<lparr>id_d = Some [], message_d = Some []\<rparr>" 1700000000900 21 ?s]
    by (simp add: la t message.equality)
  have 2: "messages (handleSubmit_settled
               (Resolved True (Parsed \<lparr>id_d = Some (js ''a1''), message_d = None\<rparr>)) 1700000000900 21 ?s) ! 1 =
     \<lparr>id_m = js ''a1'', content_m = ?fb, sender_m = Ai, timestamp_m = 21\<rparr>"
    using ne truthiness_decides_fallback
            [of "\<lparr>id_d = Some (js ''a1''), message_d = None\<rparr>" 1700000000900 21 ?s]
    by (simp add: la t message.equality)
  have 3: "messages (handleSubmit_settled
               (Resolved True (Parsed \<lparr>id_d = None, message_d = Some (js ''Freedom.'')\<rparr>))
               1700000000900 21 ?s) ! 1 =
     \<lparr>id_m = js ''1700000000900'', content_m = js ''Freedom.'', sender_m = Ai, timestamp_m = 21\<rparr>"
    using ne truthiness_decides_fallback
            [of "\<lparr>id_d = None, message_d = Some (js ''Freedom.'')\<rparr>" 1700000000900 21 ?s]
    by (simp add: la t message.equality)
  from 1 2 3 show ?thesis by simp
qed

section \<open>Voice capture controller: properties\<close>

text \<open>
  C4. The session is started at time 1000 and no sound follows. The audio-end signal at
  time 4000 stops it. The silence poll does not: its callback runs every 500 ms up to
  time 4500, when 3500 ms have passed without sound, and \<open>isRecording\<close> is still true,
  because the callback tests the \<open>isRecording\<close> of the render that created it.
\<close>

theorem silence_poll_keeps_listening:
  "isRecording (run [Toggle False True False, OnStart 1000] (mounted True True 0 None)) \<and>
   lastSoundTimestampRef (run [Toggle False True False, OnStart 1000] (mounted True True 0 None)) = 1000 \<and>
   timers (run [Toggle False True False, OnStart 1000] (mounted True True 0 None)) =
     [(1, \<lparr>kind = Interval, delay = 500, due = 1500, callback = SilenceCheck False\<rparr>)] \<and>
   isRecording (run [Toggle False True False, OnStart 1000,
                     TimerFires 1 False False 1500, TimerFires 1 False False 2000,
                     TimerFires 1 False False 2500, TimerFires 1 False False 3000,
                     TimerFires 1 False False 3500, TimerFires 1 False False 4000,
                     TimerFires 1 False False 4500] (mounted True True 0 None)) \<and>
   \<not> isRecording (run [Toggle False True False, OnStart 1000, OnAudioEnd 4000]
                     (mounted True True 0 None))"
  by (simp add: eval)

text \<open>
  C5. Two network errors, at times 2000 and 2500, leave one pending restart timer: the
  first (handle 2) is cancelled, the second (handle 3) is due at 3500. When it fires, with
  the session still recording, no call is made on the recognition object: the only call
  ever made is the \<open>start\<close> of the toggle. The number of restart attempts is zero.
\<close>

theorem network_errors_restart_nothing:
  "timers (run [Toggle False True False, OnStart 1000, OnError (js ''network'') 2000,
                OnError (js ''network'') 2500] (mounted True True 0 None)) =
     [(1, \<lparr>kind = Interval, delay = 500, due = 1500, callback = SilenceCheck False\<rparr>),
      (3, \<lparr>kind = Timeout, delay = 1000, due = 3500, callback = RetryRestart False\<rparr>)] \<and>
   calls (run [Toggle False True False, OnStart 1000, OnError (js ''network'') 2000,
               OnError (js ''network'') 2500] (mounted True True 0 None)) = [Start] \<and>
   isRecording (run [Toggle False True False, OnStart 1000, OnError (js ''network'') 2000,
                     OnError (js ''network'') 2500, TimerFires 3 False False 3500]
                  (mounted True True 0 None)) \<and>
   calls (run [Toggle False True False, OnStart 1000, OnError (js ''network'') 2000,
               OnError (js ''network'') 2500, TimerFires 3 False False 3500]
            (mounted True True 0 None)) = [Start] \<and>
   timers (run [Toggle False True False, OnStart 1000, OnError (js ''network'') 2000,
                OnError (js ''network'') 2500, TimerFires 3 False False 3500]
             (mounted True True 0 None)) =
     [(1, \<lparr>kind = Interval, delay = 500, due = 1500, callback = SilenceCheck False\<rparr>)]"
  by (simp add: eval)

text \<open>
  C6. A \<open>not-allowed\<close> error while recording shows the notice and clears
  \<open>isSpeechSupported\<close>, but \<open>isRecording\<close> stays true and the silence poll stays
  scheduled. Another error that is not a network error (\<open>no-speech\<close>) stops the recording
  and cancels the timers, and so does \<open>not-allowed\<close> in the \<open>onerror\<close> of the second
  source file.
\<close>

theorem not_allowed_keeps_listening:
  "isRecording (run [Toggle False True False, OnStart 1000, OnError (js ''not-allowed'') 2000]
                  (mounted True True 0 None)) \<and>
   timers (run [Toggle False True False, OnStart 1000, OnError (js ''not-allowed'') 2000]
             (mounted True True 0 None)) =
     [(1, \<lparr>kind = Interval, delay = 500, due = 1500, callback = SilenceCheck False\<rparr>)] \<and>
   \<not> isSpeechSupported (run [Toggle False True False, OnStart 1000,
                              OnError (js ''not-allowed'') 2000] (mounted True True 0 None)) \<and>
   alerted (run [Toggle False True False, OnStart 1000, OnError (js ''not-allowed'') 2000]
              (mounted True True 0 None)) =
     [js ''Please allow microphone access to use voice input.''] \<and>
   \<not> isRecording (run [Toggle False True False, OnStart 1000, OnError (js ''no-speech'') 2000]
                    (mounted True True 0 None)) \<and>
   timers (run [Toggle False True False, OnStart 1000, OnError (js ''no-speech'') 2000]
             (mounted True True 0 None)) = [] \<and>
   \<not> isRecording (onerror_part_000 False (js ''not-allowed'') 2000
                    (run [Toggle False True False, OnStart 1000] (mounted True True 0 None)))"
  by (simp add: eval onerror_part_000_def)

text \<open>
  C9. In every state the mounted component can reach, \<open>stopRecording\<close> leaves no task in
  the event loop and \<open>retryTimeoutRef\<close> null, with \<open>isRecording\<close> false; a timer event
  that arrives afterwards finds no task and changes nothing.
\<close>

theorem stopRecording_cancels_timers:
  "timers (stopRecording (run es (mounted p c now stored))) = [] \<and>
   retryTimeoutRef (stopRecording (run es (mounted p c now stored))) = None \<and>
   \<not> isRecording (stopRecording (run es (mounted p c now stored))) \<and>
   step (TimerFires i a b t) (stopRecording (run es (mounted p c now stored))) =
     stopRecording (run es (mounted p c now stored))"
proof -
  have o: "owned (run es (mounted p c now stored))"
    by (rule owned_run [OF owned_mounted])
  have "timerFires i a b t s = s" if "timers s = []" for s
    using that by (simp add: timerFires_def)
  with o show ?thesis
    by (simp add: owned_stopRecording_timers owned_stopRecording_retry)
qed

theorem stopRecording_cancels_timers_witness:
  "timers (run [Toggle False True False, OnStart 1000, OnError (js ''network'') 2000]
             (mounted True True 0 None)) =
     [(1, \<lparr>kind = Interval, delay = 500, due = 1500, callback = SilenceCheck False\<rparr>),
      (2, \<lparr>kind = Timeout, delay = 1000, due = 3000, callback = RetryRestart False\<rparr>)] \<and>
   retryTimeoutRef (run [Toggle False True False, OnStart 1000, OnError (js ''network'') 2000]
             (mounted True True 0 None)) = Some 2 \<and>
   timers (stopRecording (run [Toggle False True False, OnStart 1000, OnError (js ''network'') 2000]
             (mounted True True 0 None))) = [] \<and>
   retryTimeoutRef (stopRecording (run [Toggle False True False, OnStart 1000,
             OnError (js ''network'') 2000] (mounted True True 0 None))) = None \<and>
   step (TimerFires 2 False False 3000)
     (stopRecording (run [Toggle False True False, OnStart 1000, OnError (js ''network'') 2000]
             (mounted True True 0 None))) =
   stopRecording (run [Toggle False True False, OnStart 1000, OnError (js ''network'') 2000]
             (mounted True True 0 None))"
proof -
  let ?s = "run [Toggle False True False, OnStart 1000, OnError (js ''network'') 2000]
             (mounted True True 0 None)"
  have "timers ?s =
     [(1, \<lparr>kind = Interval, delay = 500, due = 1500, callback = SilenceCheck False\<rparr>),
      (2, \<lparr>kind = Timeout, delay = 1000, due = 3000, callback = RetryRestart False\<rparr>)]"
    and "retryTimeoutRef ?s = Some 2"
    by (simp_all add: eval)
  then show ?thesis
    using stopRecording_cancels_timers
      [of "[Toggle False True False, OnStart 1000, OnError (js ''network'') 2000]"
        True True 0 None 2 False False 3000]
    by simp
qed

end
